theory Spec2Isabelle
  imports Main "HOL-Library.Code_Target_Nat" "HOL-Library.Multiset" "HOL-Library.Char_ord"
    "HOL-Library.List_Lexorder"
begin

section \<open>Thrown values\<close>

text \<open>
  A JavaScript \<^verbatim>\<open>throw\<close> may carry any value. \<^verbatim>\<open>main\<close> tells an instance of
  \<^verbatim>\<open>Error\<close> (which has a message) from every other thrown value, so the model keeps
  both. A function that may throw returns \<open>thrown + 'a\<close>, with \<open>Inl\<close> for the throw.
\<close>

datatype thrown = Error (message: string) | NonError

section \<open>The semver package\<close>

text \<open>
  \<^verbatim>\<open>main.ts\<close> imports \<^verbatim>\<open>semver\<close> (line 4) and calls \<^verbatim>\<open>semver.valid\<close>,
  \<^verbatim>\<open>semver.compare\<close> and \<^verbatim>\<open>semver.inc\<close>. The package is an external dependency and
  is not part of the repository; the definitions of this section follow the sources of
  semver 7.7.2 (\<^verbatim>\<open>classes/semver.js\<close>, \<^verbatim>\<open>internal/re.js\<close>,
  \<^verbatim>\<open>internal/identifiers.js\<close>, \<^verbatim>\<open>functions/valid.js\<close>, \<^verbatim>\<open>compare.js\<close>, \<^verbatim>\<open>inc.js\<close>),
  without options (the strict grammar):

  \<^item> \<^verbatim>\<open>FULL = ^v?MAIN(-PRERELEASE)?(+BUILD)?$\<close>, matched against the trimmed string, with
    \<^verbatim>\<open>MAIN = NUM.NUM.NUM\<close>, \<^verbatim>\<open>NUM = 0|[1-9][0-9]*\<close>, a pre-release identifier
    \<^verbatim>\<open>[0-9]*[a-zA-Z-][a-zA-Z0-9-]*|NUM\<close> and a build identifier \<^verbatim>\<open>[a-zA-Z0-9-]+\<close>;
  \<^item> a version longer than 256 characters, or with a main component above
    \<^verbatim>\<open>Number.MAX_SAFE_INTEGER\<close>, is rejected with a \<^verbatim>\<open>TypeError\<close>;
  \<^item> a numeric pre-release identifier below \<^verbatim>\<open>Number.MAX_SAFE_INTEGER\<close> becomes a number,
    every other identifier stays a string; \<^verbatim>\<open>compareIdentifiers\<close> converts two numeric
    operands with unary \<^verbatim>\<open>+\<close>, which rounds a string of digits to a double;
  \<^item> \<^verbatim>\<open>SemVer.compare\<close> returns 0 on equal version strings and
    \<^verbatim>\<open>compareMain || comparePre\<close> otherwise; build metadata takes no part in it;
  \<^item> \<^verbatim>\<open>SemVer.inc\<close> without identifier, for every release type.

  Strings are lists of 8-bit characters (code units below 256). A JavaScript number that
  is a natural number is that natural number: the numbers of a version and of its
  identifiers are below \<open>2 ^ 53\<close> when they are parsed, where the conversion is exact, and
  one more at most after an increment. A string of digits that stays a string is a number
  of \<open>2 ^ 53 - 1\<close> or more; unary \<^verbatim>\<open>+\<close> converts it to the nearest double, ties to the
  even significand, which is a natural number again (\<open>toDouble\<close>; a version of at most 256
  characters is far below the largest double). The tests of the constructor against
  \<^verbatim>\<open>MAX_SAFE_INTEGER\<close> give the same answer on the double and on the number written.
\<close>

definition MAX_LENGTH :: nat where
  "MAX_LENGTH = 256"

definition MAX_SAFE_INTEGER :: nat where
  "MAX_SAFE_INTEGER = 9007199254740991"

definition isDigit :: "char \<Rightarrow> bool" where
  "isDigit c = (c \<in> set ''0123456789'')"

definition isLetterDashNumber :: "char \<Rightarrow> bool" where
  "isLetterDashNumber c =
     (c \<in> set ''0123456789abcdefghijklmnopqrstuvwxyzABCDEFGHIJKLMNOPQRSTUVWXYZ-'')"

definition isWhiteSpace :: "char \<Rightarrow> bool" where
  \<comment> \<open>the code units below 256 that \<^verbatim>\<open>String.prototype.trim\<close> removes\<close>
  "isWhiteSpace c = (of_char c \<in> {9, 10, 11, 12, 13, 32, 160 :: nat})"

definition trim :: "string \<Rightarrow> string" where
  "trim s = rev (dropWhile isWhiteSpace (rev (dropWhile isWhiteSpace s)))"

fun split :: "char \<Rightarrow> string \<Rightarrow> string list" where
  "split sep [] = [[]]"
| "split sep (c # cs) =
     (if c = sep then [] # split sep cs
      else (case split sep cs of [] \<Rightarrow> [[c]] | x # xs \<Rightarrow> (c # x) # xs))"

fun join :: "string \<Rightarrow> string list \<Rightarrow> string" where
  "join sep [] = []"
| "join sep [x] = x"
| "join sep (x # y # ys) = x @ sep @ join sep (y # ys)"

definition digitValue :: "char \<Rightarrow> nat" where
  "digitValue c = of_char c - 48"

definition toNumber :: "string \<Rightarrow> nat" where
  \<comment> \<open>unary \<^verbatim>\<open>+\<close> on a string of decimal digits\<close>
  "toNumber ds = foldl (\<lambda>n c. 10 * n + digitValue c) 0 ds"

definition digitChar :: "nat \<Rightarrow> char" where
  "digitChar d = ''0123456789'' ! d"

fun toString :: "nat \<Rightarrow> string" where
  \<comment> \<open>a number in a template string: decimal digits, no leading zero\<close>
  "toString n = (if n < 10 then [digitChar n] else toString (n div 10) @ [digitChar (n mod 10)])"

declare toString.simps [simp del]

definition numericIdentifier :: "string \<Rightarrow> bool" where
  \<comment> \<open>\<^verbatim>\<open>0|[1-9][0-9]*\<close>: digits, with a leading zero only in \<^verbatim>\<open>0\<close> itself\<close>
  "numericIdentifier ds =
     (ds \<noteq> [] \<and> list_all isDigit ds \<and> (if hd ds = CHR ''0'' then ds = ''0'' else True))"

definition prereleaseIdentifier :: "string \<Rightarrow> bool" where
  "prereleaseIdentifier x =
     (x \<noteq> [] \<and> list_all isLetterDashNumber x \<and>
      (if list_all isDigit x then numericIdentifier x else True))"

definition buildIdentifier :: "string \<Rightarrow> bool" where
  "buildIdentifier x = (x \<noteq> [] \<and> list_all isLetterDashNumber x)"

text \<open>
  The groups of a match of \<^verbatim>\<open>FULL\<close>: the three main components, the pre-release text
  and the build text (each absent when its optional part is).
\<close>

record groups =
  g_major :: string
  g_minor :: string
  g_patch :: string
  g_prerelease :: "string option"
  g_build :: "string option"

definition matchBuild :: "string \<Rightarrow> string option option" where
  \<comment> \<open>\<^verbatim>\<open>(+BUILD)?$\<close>\<close>
  "matchBuild s =
     (case s of
        [] \<Rightarrow> Some None
      | c # b \<Rightarrow>
          if c = CHR ''+'' \<and> list_all buildIdentifier (split CHR ''.'' b) then Some (Some b)
          else None)"

definition matchTail :: "string \<Rightarrow> (string option \<times> string option) option" where
  \<comment> \<open>\<^verbatim>\<open>(-PRERELEASE)?(+BUILD)?$\<close>\<close>
  "matchTail s =
     (case s of
        [] \<Rightarrow> Some (None, None)
      | c # r \<Rightarrow>
          if c = CHR ''-'' then
            (let p = takeWhile (\<lambda>d. d \<noteq> CHR ''+'') r;
                 r' = dropWhile (\<lambda>d. d \<noteq> CHR ''+'') r
             in if list_all prereleaseIdentifier (split CHR ''.'' p)
                then map_option (\<lambda>b. (Some p, b)) (matchBuild r')
                else None)
          else map_option (\<lambda>b. (None, b)) (matchBuild s))"

definition matchNumberDot :: "string \<Rightarrow> (string \<times> string) option" where
  \<comment> \<open>\<^verbatim>\<open>(NUM)\.\<close>: the number and what follows the dot\<close>
  "matchNumberDot s =
     (let n = takeWhile isDigit s
      in case dropWhile isDigit s of
           [] \<Rightarrow> None
         | c # r \<Rightarrow> if c = CHR ''.'' \<and> numericIdentifier n then Some (n, r) else None)"

definition matchFull :: "string \<Rightarrow> groups option" where
  "matchFull s =
     (let s1 = (case s of [] \<Rightarrow> [] | c # r \<Rightarrow> if c = CHR ''v'' then r else s)
      in case matchNumberDot s1 of
           None \<Rightarrow> None
         | Some (ma, s2) \<Rightarrow>
             (case matchNumberDot s2 of
                None \<Rightarrow> None
              | Some (mi, s3) \<Rightarrow>
                  (let pa = takeWhile isDigit s3
                   in if numericIdentifier pa then
                        (case matchTail (dropWhile isDigit s3) of
                           None \<Rightarrow> None
                         | Some (p, b) \<Rightarrow>
                             Some \<lparr>g_major = ma, g_minor = mi, g_patch = pa,
                                   g_prerelease = p, g_build = b\<rparr>)
                      else None)))"

datatype ident = Num nat | Str string

definition parseIdentifier :: "string \<Rightarrow> ident" where
  \<comment> \<open>the constructor's \<^verbatim>\<open>map\<close> over the pre-release: a string of digits whose number
      is below \<^verbatim>\<open>MAX_SAFE_INTEGER\<close> becomes that number, any other identifier stays as it
      is\<close>
  "parseIdentifier x =
     (if x \<noteq> [] \<and> list_all isDigit x \<and> toNumber x < MAX_SAFE_INTEGER then Num (toNumber x)
      else Str x)"

fun identifierString :: "ident \<Rightarrow> string" where
  "identifierString (Num n) = toString n"
| "identifierString (Str s) = s"

record SemVer =
  sv_major :: nat
  sv_minor :: nat
  sv_patch :: nat
  sv_prerelease :: "ident list"
  sv_build :: "string list"

definition TypeError :: "string \<Rightarrow> thrown" where
  \<comment> \<open>a \<^verbatim>\<open>TypeError\<close> is an \<^verbatim>\<open>Error\<close>\<close>
  "TypeError msg = Error msg"

definition newSemVer :: "string \<Rightarrow> thrown + SemVer" where
  \<comment> \<open>the constructor \<^verbatim>\<open>new SemVer(version)\<close>\<close>
  "newSemVer version =
     (if length version > MAX_LENGTH then
        Inl (TypeError (''version is longer than '' @ toString MAX_LENGTH @ '' characters''))
      else
        (case matchFull (trim version) of
           None \<Rightarrow> Inl (TypeError (''Invalid Version: '' @ version))
         | Some m \<Rightarrow>
             if toNumber (g_major m) > MAX_SAFE_INTEGER then Inl (TypeError ''Invalid major version'')
             else if toNumber (g_minor m) > MAX_SAFE_INTEGER then Inl (TypeError ''Invalid minor version'')
             else if toNumber (g_patch m) > MAX_SAFE_INTEGER then Inl (TypeError ''Invalid patch version'')
             else
               Inr \<lparr>sv_major = toNumber (g_major m),
                    sv_minor = toNumber (g_minor m),
                    sv_patch = toNumber (g_patch m),
                    sv_prerelease =
                      (case g_prerelease m of
                         None \<Rightarrow> []
                       | Some p \<Rightarrow> map parseIdentifier (split CHR ''.'' p)),
                    sv_build =
                      (case g_build m of None \<Rightarrow> [] | Some b \<Rightarrow> split CHR ''.'' b)\<rparr>))"

definition format :: "SemVer \<Rightarrow> string" where
  \<comment> \<open>the \<^verbatim>\<open>version\<close> field: the main version and the pre-release, without the build\<close>
  "format v =
     toString (sv_major v) @ ''.'' @ toString (sv_minor v) @ ''.'' @ toString (sv_patch v) @
     (if sv_prerelease v \<noteq> [] then ''-'' @ join ''.'' (map identifierString (sv_prerelease v))
      else [])"

definition valid :: "string \<Rightarrow> string option" where
  \<comment> \<open>\<^verbatim>\<open>semver.valid\<close>: the parsed version, or \<^verbatim>\<open>null\<close>\<close>
  "valid version = (case newSemVer version of Inl e \<Rightarrow> None | Inr v \<Rightarrow> Some (format v))"

function excess :: "nat \<Rightarrow> nat" where
  \<comment> \<open>the number of binary digits of \<open>n\<close> beyond the 53 that a double holds\<close>
  "excess n = (if n < 9007199254740992 then 0 else Suc (excess (n div 2)))"
  by pat_completeness auto
termination
  by (relation "measure id") auto

declare excess.simps [simp del]

definition toDouble :: "nat \<Rightarrow> nat" where
  \<comment> \<open>the double nearest to \<open>n\<close>, ties to the even significand: \<open>n\<close> keeps its 53 leading
      binary digits \<open>q\<close>, rounded by the rest \<open>r\<close>\<close>
  "toDouble n =
     (let e = excess n; q = n div 2 ^ e; r = n mod 2 ^ e
      in if 2 ^ e < 2 * r then (q + 1) * 2 ^ e
         else if 2 * r = 2 ^ e \<and> q mod 2 = 1 then (q + 1) * 2 ^ e
         else q * 2 ^ e)"

fun isNumeric :: "ident \<Rightarrow> bool" where
  \<comment> \<open>\<^verbatim>\<open>/^[0-9]+$/.test(a)\<close>; a number is tested as its decimal string\<close>
  "isNumeric (Num n) = True"
| "isNumeric (Str s) = (s \<noteq> [] \<and> list_all isDigit s)"

fun numberOf :: "ident \<Rightarrow> nat" where
  \<comment> \<open>unary \<^verbatim>\<open>+\<close> on a numeric operand\<close>
  "numberOf (Num n) = n"
| "numberOf (Str s) = toDouble (toNumber s)"

definition compareIdentifiers :: "ident \<Rightarrow> ident \<Rightarrow> int" where
  \<comment> \<open>two numeric operands are compared as numbers; otherwise \<^verbatim>\<open>a === b\<close> is equality of
      the identifiers, and \<^verbatim>\<open>a < b\<close> is reached by two strings only\<close>
  "compareIdentifiers a b =
     (if isNumeric a \<and> isNumeric b then
        (if numberOf a = numberOf b then 0 else if numberOf a < numberOf b then - 1 else 1)
      else if a = b then 0
      else if isNumeric a \<and> \<not> isNumeric b then - 1
      else if isNumeric b \<and> \<not> isNumeric a then 1
      else if identifierString a < identifierString b then - 1
      else 1)"

definition orElse :: "int \<Rightarrow> int \<Rightarrow> int" where
  \<comment> \<open>JavaScript's \<^verbatim>\<open>a || b\<close> on numbers\<close>
  "orElse a b = (if a \<noteq> 0 then a else b)"

definition compareMain :: "SemVer \<Rightarrow> SemVer \<Rightarrow> int" where
  "compareMain a b =
     orElse (compareIdentifiers (Num (sv_major a)) (Num (sv_major b)))
       (orElse (compareIdentifiers (Num (sv_minor a)) (Num (sv_minor b)))
          (compareIdentifiers (Num (sv_patch a)) (Num (sv_patch b))))"

fun comparePreLoop :: "ident list \<Rightarrow> ident list \<Rightarrow> int" where
  "comparePreLoop [] [] = 0"
| "comparePreLoop (a # as) [] = 1"
| "comparePreLoop [] (b # bs) = - 1"
| "comparePreLoop (a # as) (b # bs) =
     (if a = b then comparePreLoop as bs else compareIdentifiers a b)"

definition comparePre :: "SemVer \<Rightarrow> SemVer \<Rightarrow> int" where
  "comparePre a b =
     (if sv_prerelease a \<noteq> [] \<and> sv_prerelease b = [] then - 1
      else if sv_prerelease a = [] \<and> sv_prerelease b \<noteq> [] then 1
      else if sv_prerelease a = [] \<and> sv_prerelease b = [] then 0
      else comparePreLoop (sv_prerelease a) (sv_prerelease b))"

definition compareSemVer :: "SemVer \<Rightarrow> SemVer \<Rightarrow> int" where
  \<comment> \<open>the method \<^verbatim>\<open>SemVer.compare\<close>\<close>
  "compareSemVer a b =
     (if format b = format a then 0 else orElse (compareMain a b) (comparePre a b))"

definition compare :: "string \<Rightarrow> string \<Rightarrow> thrown + int" where
  \<comment> \<open>\<^verbatim>\<open>semver.compare(a, b) = new SemVer(a).compare(new SemVer(b))\<close>\<close>
  "compare a b =
     (case newSemVer a of
        Inl e \<Rightarrow> Inl e
      | Inr x \<Rightarrow> (case newSemVer b of Inl e \<Rightarrow> Inl e | Inr y \<Rightarrow> Inr (compareSemVer x y)))"

fun bumpLastNumber :: "ident list \<Rightarrow> ident list option" where
  \<comment> \<open>the loop of \<^verbatim>\<open>pre\<close>: the last identifier that is a number, increased by one\<close>
  "bumpLastNumber [] = None"
| "bumpLastNumber (x # xs) =
     (case bumpLastNumber xs of
        Some ys \<Rightarrow> Some (x # ys)
      | None \<Rightarrow> (case x of Num n \<Rightarrow> Some (Num (n + 1) # xs) | Str s \<Rightarrow> None))"

definition incPre :: "SemVer \<Rightarrow> SemVer" where
  \<comment> \<open>\<^verbatim>\<open>inc('pre')\<close> without identifier: the base is 0\<close>
  "incPre v =
     (if sv_prerelease v = [] then v\<lparr>sv_prerelease := [Num 0]\<rparr>
      else
        (case bumpLastNumber (sv_prerelease v) of
           Some p \<Rightarrow> v\<lparr>sv_prerelease := p\<rparr>
         | None \<Rightarrow> v\<lparr>sv_prerelease := sv_prerelease v @ [Num 0]\<rparr>))"

definition incPatch :: "SemVer \<Rightarrow> SemVer" where
  \<comment> \<open>\<^verbatim>\<open>inc('patch')\<close>\<close>
  "incPatch v =
     v\<lparr>sv_patch := (if sv_prerelease v = [] then sv_patch v + 1 else sv_patch v),
       sv_prerelease := []\<rparr>"

definition incSemVer :: "SemVer \<Rightarrow> string \<Rightarrow> SemVer option" where
  \<comment> \<open>the method \<^verbatim>\<open>SemVer.inc(release)\<close>; \<open>None\<close> where it throws, which
      \<^verbatim>\<open>semver.inc\<close> turns into \<^verbatim>\<open>null\<close>\<close>
  "incSemVer v release =
     (if release = ''premajor'' then
        Some (incPre (v\<lparr>sv_major := sv_major v + 1, sv_minor := 0, sv_patch := 0,
                        sv_prerelease := []\<rparr>))
      else if release = ''preminor'' then
        Some (incPre (v\<lparr>sv_minor := sv_minor v + 1, sv_patch := 0, sv_prerelease := []\<rparr>))
      else if release = ''prepatch'' then
        Some (incPre (incPatch (v\<lparr>sv_prerelease := []\<rparr>)))
      else if release = ''prerelease'' then
        Some (incPre (if sv_prerelease v = [] then incPatch v else v))
      else if release = ''release'' then
        (if sv_prerelease v = [] then None else Some (v\<lparr>sv_prerelease := []\<rparr>))
      else if release = ''major'' then
        Some (v\<lparr>sv_major :=
                  (if sv_minor v \<noteq> 0 \<or> sv_patch v \<noteq> 0 \<or> sv_prerelease v = []
                   then sv_major v + 1 else sv_major v),
                sv_minor := 0, sv_patch := 0, sv_prerelease := []\<rparr>)
      else if release = ''minor'' then
        Some (v\<lparr>sv_minor :=
                  (if sv_patch v \<noteq> 0 \<or> sv_prerelease v = []
                   then sv_minor v + 1 else sv_minor v),
                sv_patch := 0, sv_prerelease := []\<rparr>)
      else if release = ''patch'' then Some (incPatch v)
      else if release = ''pre'' then Some (incPre v)
      else None)"

definition inc :: "string \<Rightarrow> string \<Rightarrow> string option" where
  \<comment> \<open>\<^verbatim>\<open>semver.inc(version, release)\<close>: the version string of the incremented version,
      or \<^verbatim>\<open>null\<close> where the constructor or the method threw\<close>
  "inc version release =
     (case newSemVer version of
        Inl e \<Rightarrow> None
      | Inr v \<Rightarrow> (case incSemVer v release of None \<Rightarrow> None | Some v' \<Rightarrow> Some (format v')))"

section \<open>The action: \<^verbatim>\<open>src/main.ts\<close>\<close>

subsection \<open>Data\<close>

text \<open>
  Of a label, a pull request and a tag the action reads the fields below. The labels of a
  pull request and the tags of a page are arrays, hence lists.
\<close>

record label =
  label_name :: string

record PullRequest =
  number :: nat
  labels :: "label list"

record Tag =
  tag_name :: string

definition patch :: string where
  "patch = ''patch''"

definition minor :: string where
  "minor = ''minor''"

definition major :: string where
  "major = ''major''"

definition noRelease :: string where
  "noRelease = ''no-release''"

definition validLabels :: "string list" where
  "validLabels = [patch, minor, major, noRelease]"

subsection \<open>The environment and the effects\<close>

text \<open>
  What the action reads from its surroundings is a record: the triggering commit
  (\<^verbatim>\<open>github.context.sha\<close>), the number of the pull request of the payload when there is
  one, the inputs (\<^verbatim>\<open>core.getInput\<close>), and what each call of the GitHub client answers,
  which is a value or a throw. \<^verbatim>\<open>listTags\<close> answers with the pages that
  \<^verbatim>\<open>octokit.paginate\<close> walks through.
\<close>

record env =
  sha :: string
  payload_pull_request :: "nat option"
  getInput :: "string \<Rightarrow> string"
  getOctokit :: "string \<Rightarrow> thrown + unit"
  pulls_get :: "nat \<Rightarrow> thrown + PullRequest"
  commit_pulls :: "string \<Rightarrow> thrown + PullRequest list"
  listTags :: "thrown + Tag list list"
  createRef :: "string \<Rightarrow> string \<Rightarrow> thrown + unit"

text \<open>
  What the action does to its surroundings is a log of events, in the order of the calls,
  and the exit code of the process, which \<^verbatim>\<open>core.setFailed\<close> sets to 1.
\<close>

datatype event =
    RequestCommitPulls string
  | RequestPullsGet nat
  | RequestListTags
  | RequestCreateRef string string
  | Info string
  | SetOutput string string
  | SetFailed string

record world =
  events :: "event list"
  exitCode :: nat

definition emit :: "event \<Rightarrow> world \<Rightarrow> world" where
  "emit e w = w\<lparr>events := events w @ [e]\<rparr>"

definition setFailed :: "string \<Rightarrow> world \<Rightarrow> world" where
  "setFailed msg w = (emit (SetFailed msg) w)\<lparr>exitCode := 1\<rparr>"

subsection \<open>The functions\<close>

definition isValidLabel :: "label \<Rightarrow> bool" where
  \<comment> \<open>the predicate \<^verbatim>\<open>it => validLabels.includes(it.name)\<close>\<close>
  "isValidLabel it = (label_name it \<in> set validLabels)"

definition validatePullRequestLabel :: "PullRequest \<Rightarrow> thrown + unit" where
  "validatePullRequestLabel pr =
     (if \<not> list_ex isValidLabel (labels pr) then
        Inl (Error (''Please set one of the following label : '' @ join '', '' validLabels))
      else
        (let count = length (filter isValidLabel (labels pr))
         in if count \<noteq> 1 then Inl (Error ''Exactly one label must be set'') else Inr ()))"

definition pullRequestFromCommitSha :: "env \<Rightarrow> world \<Rightarrow> (thrown + PullRequest) \<times> world" where
  "pullRequestFromCommitSha env w =
     (let w1 = emit (RequestCommitPulls (sha env)) w
      in case commit_pulls env (sha env) of
           Inl e \<Rightarrow> (Inl e, w1)
         | Inr prList \<Rightarrow>
             if length prList = 0 then
               (Inl (Error (''Cannot find any Pull Request associated with '' @ sha env)), w1)
             else if length prList \<noteq> 1 then
               (Inl (Error (''Multiple Pull Requests found for '' @ sha env)), w1)
             else (Inr (prList ! 0), w1))"

text \<open>
  \<^verbatim>\<open>Array.prototype.sort\<close> with a comparator is a stable sort; its result is the one of
  insertion sort, which puts an element before the first one that it does not follow. A
  throw of the comparator ends the sort. Where the comparator is no consistent order the
  language leaves the result to the engine; on an array whose neighbours all compare as
  equal, V8's sort compares the neighbours only, finds one run and leaves the array as it
  is, which is also what insertion sort does.
\<close>

fun insertSorted :: "('a \<Rightarrow> 'a \<Rightarrow> thrown + int) \<Rightarrow> 'a \<Rightarrow> 'a list \<Rightarrow> thrown + 'a list" where
  "insertSorted cmp x [] = Inr [x]"
| "insertSorted cmp x (y # ys) =
     (case cmp x y of
        Inl e \<Rightarrow> Inl e
      | Inr c \<Rightarrow>
          if c \<le> 0 then Inr (x # y # ys)
          else (case insertSorted cmp x ys of Inl e \<Rightarrow> Inl e | Inr zs \<Rightarrow> Inr (y # zs)))"

fun sortArray :: "('a \<Rightarrow> 'a \<Rightarrow> thrown + int) \<Rightarrow> 'a list \<Rightarrow> thrown + 'a list" where
  "sortArray cmp [] = Inr []"
| "sortArray cmp (x # xs) =
     (case sortArray cmp xs of Inl e \<Rightarrow> Inl e | Inr ys \<Rightarrow> insertSorted cmp x ys)"

definition getLatestTag :: "env \<Rightarrow> world \<Rightarrow> (thrown + string option) \<times> world" where
  "getLatestTag env w =
     (let w1 = emit RequestListTags w
      in case listTags env of
           Inl e \<Rightarrow> (Inl e, w1)
         | Inr pages \<Rightarrow>
             (let tagsList = concat (map (filter (\<lambda>tag. valid (tag_name tag) \<noteq> None)) pages)
              in case sortArray (\<lambda>x y. compare (tag_name x) (tag_name y)) tagsList of
                   Inl e \<Rightarrow> (Inl e, w1)
                 | Inr tagsSorted \<Rightarrow>
                     if length tagsSorted = 0 then (Inr None, w1)
                     else (Inr (Some (tag_name (tagsSorted ! 0))), w1)))"

definition publishTag :: "env \<Rightarrow> string \<Rightarrow> world \<Rightarrow> (thrown + unit) \<times> world" where
  "publishTag env tag w =
     (let w1 = emit (Info (''Tagging '' @ sha env @ '' with tag '' @ tag)) w;
          w2 = emit (RequestCreateRef (''refs/tags/'' @ tag) (sha env)) w1
      in case createRef env (''refs/tags/'' @ tag) (sha env) of
           Inl e \<Rightarrow> (Inl e, w2)
         | Inr u \<Rightarrow> (Inr (), w2))"

definition incrementTag :: "string \<Rightarrow> string \<Rightarrow> thrown + string" where
  "incrementTag tag bump =
     (case inc tag bump of
        None \<Rightarrow>
          Inl (Error (''failed to increment tag '' @ [CHR 0x22] @ tag @ [CHR 0x22] @
                      '' with bump '' @ bump))
      | Some newTag \<Rightarrow> Inr newTag)"

definition releaseWithBump :: "env \<Rightarrow> string \<Rightarrow> world \<Rightarrow> (thrown + string) \<times> world" where
  \<comment> \<open>lines 97 to 110 of \<^verbatim>\<open>publishGitTag\<close>: what follows once \<^verbatim>\<open>bump\<close> is known\<close>
  "releaseWithBump env bump w =
     (if bump = noRelease then
        (Inr [], emit (Info (noRelease @ '' label detected, skipping release'')) w)
      else
        (case getLatestTag env w of
           (Inl e, w1) \<Rightarrow> (Inl e, w1)
         | (Inr latestTag, w1) \<Rightarrow>
             (case (case latestTag of
                      None \<Rightarrow> Inr (getInput env ''initial_tag'')
                    | Some t \<Rightarrow> incrementTag t bump) of
                Inl e \<Rightarrow> (Inl e, w1)
              | Inr newTag \<Rightarrow>
                  (case publishTag env newTag w1 of
                     (Inl e, w2) \<Rightarrow> (Inl e, w2)
                   | (Inr u, w2) \<Rightarrow> (Inr newTag, w2)))))"

definition publishGitTag :: "env \<Rightarrow> world \<Rightarrow> (thrown + string) \<times> world" where
  \<comment> \<open>\<^verbatim>\<open>[0].name\<close> of an empty array throws a \<^verbatim>\<open>TypeError\<close>\<close>
  "publishGitTag env w =
     (case pullRequestFromCommitSha env w of
        (Inl e, w1) \<Rightarrow> (Inl e, w1)
      | (Inr pr, w1) \<Rightarrow>
          (case validatePullRequestLabel pr of
             Inl e \<Rightarrow> (Inl e, w1)
           | Inr u \<Rightarrow>
               (case filter isValidLabel (labels pr) of
                  [] \<Rightarrow>
                    (Inl (TypeError ''Cannot read properties of undefined (reading 'name')''), w1)
                | l # ls \<Rightarrow> releaseWithBump env (label_name l) w1)))"

definition mainBody :: "env \<Rightarrow> world \<Rightarrow> (thrown + unit) \<times> world" where
  \<comment> \<open>the \<^verbatim>\<open>try\<close> block of \<^verbatim>\<open>main\<close>\<close>
  "mainBody env w =
     (case getOctokit env (getInput env ''github_token'') of
        Inl e \<Rightarrow> (Inl e, w)
      | Inr u \<Rightarrow>
          (case payload_pull_request env of
             Some n \<Rightarrow>
               (let w1 = emit (RequestPullsGet n) w
                in case pulls_get env n of
                     Inl e \<Rightarrow> (Inl e, w1)
                   | Inr pr \<Rightarrow>
                       (case validatePullRequestLabel pr of
                          Inl e \<Rightarrow> (Inl e, w1)
                        | Inr u \<Rightarrow> (Inr (), w1)))
           | None \<Rightarrow>
               (case publishGitTag env w of
                  (Inl e, w1) \<Rightarrow> (Inl e, w1)
                | (Inr newTag, w1) \<Rightarrow> (Inr (), emit (SetOutput ''tag'' newTag) w1))))"

definition main :: "env \<Rightarrow> world \<Rightarrow> (thrown + unit) \<times> world" where
  \<comment> \<open>\<^verbatim>\<open>try\<close> and \<^verbatim>\<open>catch\<close>: the caught value is reported when it is an \<^verbatim>\<open>Error\<close>\<close>
  "main env w =
     (case mainBody env w of
        (Inr u, w1) \<Rightarrow> (Inr (), w1)
      | (Inl error, w1) \<Rightarrow>
          (case error of
             Error msg \<Rightarrow> (Inr (), setFailed msg w1)
           | NonError \<Rightarrow> (Inr (), w1)))"

subsection \<open>Example environments\<close>

text \<open>
  A merge event: no pull request in the payload, the commit \<open>c0ffee\<close>, the given pull
  requests associated with it, the given pages of tags, \<open>initial_tag = 0.1.0\<close>, and a
  client whose calls succeed.
\<close>

definition mergeEnv :: "PullRequest list \<Rightarrow> Tag list list \<Rightarrow> env" where
  "mergeEnv prs pages =
     \<lparr>sha = ''c0ffee'',
      payload_pull_request = None,
      getInput = (\<lambda>n. if n = ''initial_tag'' then ''0.1.0''
                        else if n = ''github_token'' then ''token'' else []),
      getOctokit = (\<lambda>t. Inr ()),
      pulls_get = (\<lambda>n. Inl (Error ''Not Found'')),
      commit_pulls = (\<lambda>s. Inr prs),
      listTags = Inr pages,
      createRef = (\<lambda>r s. Inr ())\<rparr>"

definition labelled :: "string list \<Rightarrow> PullRequest" where
  \<comment> \<open>pull request 7 with the labels of the given names\<close>
  "labelled ns = \<lparr>number = 7, labels = map (\<lambda>n. \<lparr>label_name = n\<rparr>) ns\<rparr>"

definition tagsNamed :: "string list \<Rightarrow> Tag list" where
  "tagsNamed ns = map (\<lambda>n. \<lparr>tag_name = n\<rparr>) ns"

definition world0 :: world where
  "world0 = \<lparr>events = [], exitCode = 0\<rparr>"

subsection \<open>Observers of the log\<close>

definition isCreateRef :: "event \<Rightarrow> bool" where
  "isCreateRef e = (case e of RequestCreateRef r s \<Rightarrow> True | _ \<Rightarrow> False)"

definition isSetFailed :: "event \<Rightarrow> bool" where
  "isSetFailed e = (case e of SetFailed m \<Rightarrow> True | _ \<Rightarrow> False)"

definition createRefCalls :: "world \<Rightarrow> event list" where
  \<comment> \<open>the calls of the tag publisher so far\<close>
  "createRefCalls w = filter isCreateRef (events w)"

definition listTagsCalls :: "world \<Rightarrow> nat" where
  \<comment> \<open>the number of tag listings so far\<close>
  "listTagsCalls w = length (filter (\<lambda>e. e = RequestListTags) (events w))"

definition failureReports :: "world \<Rightarrow> event list" where
  "failureReports w = filter isSetFailed (events w)"

subsection \<open>Vocabulary of the statements\<close>

definition validTag :: "Tag \<Rightarrow> bool" where
  \<comment> \<open>the filter of \<^verbatim>\<open>getLatestTag\<close>\<close>
  "validTag tag = (valid (tag_name tag) \<noteq> None)"

definition notAbove :: "string \<Rightarrow> string \<Rightarrow> bool" where
  \<comment> \<open>\<^verbatim>\<open>semver.compare(a, b)\<close> returns, and returns at most 0\<close>
  "notAbove a b = (case compare a b of Inl e \<Rightarrow> False | Inr c \<Rightarrow> c \<le> 0)"

abbreviation byName :: "Tag \<Rightarrow> Tag \<Rightarrow> thrown + int" where
  \<comment> \<open>the comparator of the sort in \<^verbatim>\<open>getLatestTag\<close>\<close>
  "byName \<equiv> (\<lambda>x y. compare (tag_name x) (tag_name y))"


definition mainLess :: "SemVer \<Rightarrow> SemVer \<Rightarrow> bool" where
  "mainLess a b \<longleftrightarrow>
     sv_major a < sv_major b \<or>
     (sv_major a = sv_major b \<and>
        (sv_minor a < sv_minor b \<or> (sv_minor a = sv_minor b \<and> sv_patch a < sv_patch b)))"

definition mainEq :: "SemVer \<Rightarrow> SemVer \<Rightarrow> bool" where
  "mainEq a b \<longleftrightarrow>
     sv_major a = sv_major b \<and> sv_minor a = sv_minor b \<and> sv_patch a = sv_patch b"


definition releaseString :: "nat \<Rightarrow> nat \<Rightarrow> nat \<Rightarrow> string" where
  \<comment> \<open>the version string of a release: no pre-release, no build\<close>
  "releaseString a b c = toString a @ ''.'' @ toString b @ ''.'' @ toString c"









section \<open>Lemmas\<close>

subsection \<open>Printing and parsing numbers\<close>

lemma toString_0: "toString 0 = ''0''"
  by code_simp

lemma format_release:
  "sv_prerelease v = [] \<Longrightarrow>
   format v = toString (sv_major v) @ ''.'' @ toString (sv_minor v) @ ''.'' @ toString (sv_patch v)"
  by (simp add: format_def)

lemma digit_cases: "d < 10 \<Longrightarrow> d \<in> {0, 1, 2, 3, 4, 5, 6, 7, 8, 9 :: nat}"
  by auto

lemma isDigit_digitChar: "d < 10 \<Longrightarrow> isDigit (digitChar d)"
  by (drule digit_cases) (auto simp add: isDigit_def digitChar_def)

lemma digitValue_digitChar: "d < 10 \<Longrightarrow> digitValue (digitChar d) = d"
  by (drule digit_cases) (auto simp add: digitValue_def digitChar_def)

lemma digitChar_zero: "d < 10 \<Longrightarrow> digitChar d = CHR ''0'' \<longleftrightarrow> d = 0"
  by (drule digit_cases) (auto simp add: digitChar_def)

lemma toString_digits: "toString n \<noteq> [] \<and> list_all isDigit (toString n)"
proof (induction n rule: toString.induct)
  case (1 n)
  show ?case
  proof (cases "n < 10")
    case True
    then show ?thesis by (simp add: toString.simps[of n] isDigit_digitChar)
  next
    case False
    with 1 show ?thesis by (simp add: toString.simps[of n] isDigit_digitChar)
  qed
qed

lemma toNumber_snoc: "toNumber (ds @ [c]) = 10 * toNumber ds + digitValue c"
  by (simp add: toNumber_def)

lemma toNumber_toString: "toNumber (toString n) = n"
proof (induction n rule: toString.induct)
  case (1 n)
  show ?case
  proof (cases "n < 10")
    case True
    then show ?thesis
      by (simp add: toString.simps[of n] toNumber_def digitValue_digitChar)
  next
    case False
    with 1 show ?thesis
      by (simp add: toString.simps[of n] toNumber_snoc digitValue_digitChar)
  qed
qed

lemma toString_leading: "hd (toString n) = CHR ''0'' \<Longrightarrow> toString n = ''0''"
proof (induction n rule: toString.induct)
  case (1 n)
  show ?case
  proof (cases "n < 10")
    case True
    with "1.prems" have "n = 0" by (simp add: toString.simps[of n] digitChar_zero)
    then show ?thesis by (simp add: toString_0)
  next
    case False
    from toString_digits[of "n div 10"] have ne: "toString (n div 10) \<noteq> []" by simp
    with False "1.prems" have "hd (toString (n div 10)) = CHR ''0''"
      by (simp add: toString.simps[of n])
    with False "1.IH" have "toString (n div 10) = ''0''" by simp
    then have "toNumber (toString (n div 10)) = toNumber ''0''" by simp
    then have "n div 10 = 0" by (simp add: toNumber_toString) (simp add: toNumber_def digitValue_def)
    with False show ?thesis by simp
  qed
qed

lemma numericIdentifier_toString: "numericIdentifier (toString n)"
  using toString_digits[of n] toString_leading[of n]
  by (auto simp add: numericIdentifier_def)

lemma toString_length: "n < 10 ^ k \<Longrightarrow> 0 < k \<Longrightarrow> length (toString n) \<le> k"
proof (induction n arbitrary: k rule: toString.induct)
  case (1 n)
  show ?case
  proof (cases "n < 10")
    case True
    with "1.prems" show ?thesis by (simp add: toString.simps[of n])
  next
    case False
    with "1.prems" obtain j where k: "k = Suc j" by (cases k) auto
    with False "1.prems" have "0 < j" by (cases j) auto
    moreover from "1.prems" k have "n div 10 < 10 ^ j"
      by (simp add: less_mult_imp_div_less mult.commute)
    ultimately have "length (toString (n div 10)) \<le> j" using False "1.IH" by simp
    with False k show ?thesis by (simp add: toString.simps[of n])
  qed
qed

lemma digit_not_space: "isDigit c \<Longrightarrow> \<not> isWhiteSpace c"
  by (auto simp add: isDigit_def isWhiteSpace_def)

lemma digit_not_v: "isDigit c \<Longrightarrow> c \<noteq> CHR ''v''"
  by (auto simp add: isDigit_def)

lemma dot_not_digit: "\<not> isDigit CHR ''.''"
  by (simp add: isDigit_def)

lemma takeWhile_digits:
  "list_all isDigit ds \<Longrightarrow> \<not> isDigit c \<Longrightarrow>
   takeWhile isDigit (ds @ c # r) = ds \<and> dropWhile isDigit (ds @ c # r) = c # r"
  by (simp add: list_all_iff takeWhile_append2 dropWhile_append2)

lemma takeWhile_all_digits:
  "list_all isDigit ds \<Longrightarrow> takeWhile isDigit ds = ds \<and> dropWhile isDigit ds = []"
  by (simp add: list_all_iff)

lemma matchNumberDot_toString:
  "matchNumberDot (toString n @ CHR ''.'' # r) = Some (toString n, r)"
  using toString_digits[of n] takeWhile_digits[of "toString n" "CHR ''.''" r]
  by (simp add: matchNumberDot_def dot_not_digit numericIdentifier_toString)

lemma trim_id:
  assumes "s \<noteq> []" and "\<not> isWhiteSpace (hd s)" and "\<not> isWhiteSpace (last s)"
  shows "trim s = s"
proof -
  from assms(1,2) have a: "dropWhile isWhiteSpace s = s" by (cases s) simp_all
  from assms(1) have "rev s \<noteq> []" by simp
  moreover from assms(1,3) have "\<not> isWhiteSpace (hd (rev s))" by (simp add: hd_rev)
  ultimately have "dropWhile isWhiteSpace (rev s) = rev s" by (cases "rev s") simp_all
  with a show ?thesis by (simp add: trim_def)
qed

lemma toString_hd_last: "isDigit (hd (toString n)) \<and> isDigit (last (toString n))"
  using toString_digits[of n]
  by (cases "toString n") (auto simp add: list_all_iff)

lemma trim_releaseString: "trim (releaseString a b c) = releaseString a b c"
proof (rule trim_id)
  show "releaseString a b c \<noteq> []" by (simp add: releaseString_def)
  have "hd (releaseString a b c) = hd (toString a)"
    using toString_digits[of a] by (simp add: releaseString_def)
  with toString_hd_last[of a] show "\<not> isWhiteSpace (hd (releaseString a b c))"
    by (simp add: digit_not_space)
  have "last (releaseString a b c) = last (toString c)"
    using toString_digits[of c] by (simp add: releaseString_def)
  with toString_hd_last[of c] show "\<not> isWhiteSpace (last (releaseString a b c))"
    by (simp add: digit_not_space)
qed

lemma matchFull_releaseString:
  "matchFull (releaseString a b c) =
     Some \<lparr>g_major = toString a, g_minor = toString b, g_patch = toString c,
           g_prerelease = None, g_build = None\<rparr>"
proof -
  obtain d ds where d: "toString a = d # ds" "isDigit d"
    using toString_digits[of a] by (cases "toString a") auto
  then have v: "d \<noteq> CHR ''v''" by (simp add: digit_not_v)
  have s1: "(case releaseString a b c of [] \<Rightarrow> [] | x # r \<Rightarrow> if x = CHR ''v'' then r
              else releaseString a b c) = releaseString a b c"
    using d v by (simp add: releaseString_def)
  have m1: "matchNumberDot (releaseString a b c) =
              Some (toString a, toString b @ CHR ''.'' # toString c)"
    using matchNumberDot_toString[of a "toString b @ CHR ''.'' # toString c"]
    by (simp add: releaseString_def)
  have m2: "matchNumberDot (toString b @ CHR ''.'' # toString c) = Some (toString b, toString c)"
    by (rule matchNumberDot_toString)
  have t: "takeWhile isDigit (toString c) = toString c" "dropWhile isDigit (toString c) = []"
    using toString_digits[of c] takeWhile_all_digits[of "toString c"] by simp_all
  show ?thesis
    unfolding matchFull_def s1
    by (simp add: m1 m2 t numericIdentifier_toString matchTail_def)
qed

lemma length_releaseString:
  assumes "a < 10 ^ 16" "b < 10 ^ 16" "c < 10 ^ 16"
  shows "length (releaseString a b c) \<le> MAX_LENGTH"
  using toString_length[of a 16] toString_length[of b 16] toString_length[of c 16] assms
  by (simp add: releaseString_def MAX_LENGTH_def)

lemma newSemVer_releaseString:
  assumes "a \<le> MAX_SAFE_INTEGER" "b \<le> MAX_SAFE_INTEGER" "c \<le> MAX_SAFE_INTEGER"
  shows "newSemVer (releaseString a b c) =
           Inr \<lparr>sv_major = a, sv_minor = b, sv_patch = c, sv_prerelease = [], sv_build = []\<rparr>"
proof -
  from assms have "a < 10 ^ 16" "b < 10 ^ 16" "c < 10 ^ 16"
    by (simp_all add: MAX_SAFE_INTEGER_def)
  then have "\<not> length (releaseString a b c) > MAX_LENGTH"
    using length_releaseString[of a b c] by simp
  with assms show ?thesis
    by (simp add: newSemVer_def trim_releaseString matchFull_releaseString toNumber_toString)
qed

lemma newSemVer_bounds:
  "newSemVer s = Inr v \<Longrightarrow>
   sv_major v \<le> MAX_SAFE_INTEGER \<and> sv_minor v \<le> MAX_SAFE_INTEGER \<and>
   sv_patch v \<le> MAX_SAFE_INTEGER"
  by (auto simp add: newSemVer_def split: if_splits option.splits)

lemma compareSemVer_build: "compareSemVer (a\<lparr>sv_build := x\<rparr>) b = compareSemVer a b"
  by (simp add: compareSemVer_def compareMain_def comparePre_def format_def)

subsection \<open>The order of the identifiers\<close>

lemma compareIdentifiers_Num:
  "compareIdentifiers (Num a) (Num b) = (if a = b then 0 else if a < b then - 1 else 1)"
  by (simp add: compareIdentifiers_def)











subsection \<open>The version string\<close>

lemma toString_inj:
  assumes "toString a = toString b"
  shows "a = b"
proof -
  have "toNumber (toString a) = toNumber (toString b)" by (simp only: assms)
  then show ?thesis by (simp only: toNumber_toString)
qed

lemma takeWhile_run:
  "list_all isDigit ds \<Longrightarrow> r = [] \<or> \<not> isDigit (hd r) \<Longrightarrow>
   takeWhile isDigit (ds @ r) = ds \<and> dropWhile isDigit (ds @ r) = r"
  by (cases r) (simp_all add: takeWhile_digits takeWhile_all_digits)

lemma digits_prefix:
  assumes "list_all isDigit ds" and "list_all isDigit es"
    and "r = [] \<or> \<not> isDigit (hd r)" and "s = [] \<or> \<not> isDigit (hd s)"
    and "ds @ r = es @ s"
  shows "ds = es \<and> r = s"
proof -
  have "takeWhile isDigit (ds @ r) = ds" "dropWhile isDigit (ds @ r) = r"
    using takeWhile_run[OF assms(1,3)] by simp_all
  moreover have "takeWhile isDigit (es @ s) = es" "dropWhile isDigit (es @ s) = s"
    using takeWhile_run[OF assms(2,4)] by simp_all
  ultimately show ?thesis using assms(5) by simp
qed

lemma toString_prefix:
  assumes "r = [] \<or> \<not> isDigit (hd r)" and "s = [] \<or> \<not> isDigit (hd s)"
    and "toString a @ r = toString b @ s"
  shows "a = b \<and> r = s"
  using digits_prefix[OF _ _ assms] toString_digits[of a] toString_digits[of b] toString_inj
  by blast

lemma format_eq:
  assumes "format a = format b"
  shows "mainEq a b \<and> (sv_prerelease a = [] \<longleftrightarrow> sv_prerelease b = []) \<and>
         join ''.'' (map identifierString (sv_prerelease a)) =
           join ''.'' (map identifierString (sv_prerelease b))"
proof -
  define ra where "ra = (if sv_prerelease a \<noteq> []
     then CHR ''-'' # join ''.'' (map identifierString (sv_prerelease a)) else [])"
  define rb where "rb = (if sv_prerelease b \<noteq> []
     then CHR ''-'' # join ''.'' (map identifierString (sv_prerelease b)) else [])"
  have fa: "format a = toString (sv_major a) @ (CHR ''.'' # toString (sv_minor a) @
                (CHR ''.'' # toString (sv_patch a) @ ra))"
    by (simp add: format_def ra_def)
  have fb: "format b = toString (sv_major b) @ (CHR ''.'' # toString (sv_minor b) @
                (CHR ''.'' # toString (sv_patch b) @ rb))"
    by (simp add: format_def rb_def)
  have nd: "ra = [] \<or> \<not> isDigit (hd ra)" "rb = [] \<or> \<not> isDigit (hd rb)"
    by (simp_all add: ra_def rb_def isDigit_def)
  from assms fa fb have 1: "sv_major a = sv_major b"
    and r1: "toString (sv_minor a) @ (CHR ''.'' # toString (sv_patch a) @ ra) =
             toString (sv_minor b) @ (CHR ''.'' # toString (sv_patch b) @ rb)"
    using toString_prefix[of "CHR ''.'' # toString (sv_minor a) @ (CHR ''.'' # toString (sv_patch a) @ ra)"
        "CHR ''.'' # toString (sv_minor b) @ (CHR ''.'' # toString (sv_patch b) @ rb)"
        "sv_major a" "sv_major b"]
    by (simp_all add: dot_not_digit)
  from r1 have 2: "sv_minor a = sv_minor b"
    and r2: "toString (sv_patch a) @ ra = toString (sv_patch b) @ rb"
    using toString_prefix[of "CHR ''.'' # toString (sv_patch a) @ ra"
        "CHR ''.'' # toString (sv_patch b) @ rb" "sv_minor a" "sv_minor b"]
    by (simp_all add: dot_not_digit)
  from r2 nd have 3: "sv_patch a = sv_patch b" and r3: "ra = rb"
    using toString_prefix[of ra rb "sv_patch a" "sv_patch b"] by simp_all
  from r3 have e: "sv_prerelease a = [] \<longleftrightarrow> sv_prerelease b = []"
    by (auto simp add: ra_def rb_def split: if_splits)
  from r3 e have "join ''.'' (map identifierString (sv_prerelease a)) =
           join ''.'' (map identifierString (sv_prerelease b))"
    by (cases "sv_prerelease a = []") (simp_all add: ra_def rb_def)
  with 1 2 3 e show ?thesis by (simp add: mainEq_def)
qed















subsection \<open>The order of \<^verbatim>\<open>SemVer.compare\<close>\<close>




lemma compareMain_cases:
  "compareMain a b = (if mainLess a b then - 1 else if mainEq a b then 0 else 1)"
  by (auto simp add: compareMain_def orElse_def mainLess_def mainEq_def compareIdentifiers_Num)

lemma compareSemVer_cases:
  "compareSemVer a b =
     (if format b = format a then 0
      else if mainLess a b then - 1 else if mainEq a b then comparePre a b else 1)"
  by (simp add: compareSemVer_def compareMain_cases orElse_def)




lemma compareSemVer_greater:
  assumes "mainLess v v' \<or> (mainEq v v' \<and> sv_prerelease v \<noteq> [] \<and> sv_prerelease v' = [])"
  shows "compareSemVer v' v = 1"
proof -
  have "format v \<noteq> format v'"
  proof
    assume "format v = format v'"
    from format_eq[OF this] assms show False by (auto simp add: mainLess_def mainEq_def)
  qed
  with assms show ?thesis
    by (auto simp add: compareSemVer_cases mainLess_def mainEq_def comparePre_def)
qed

subsection \<open>\<^verbatim>\<open>semver.compare\<close> on valid versions\<close>

lemma ne_set_nil: "x \<in> set xs \<Longrightarrow> xs \<noteq> []"
  by (cases xs) simp_all

lemma valid_iff: "valid a \<noteq> None \<longleftrightarrow> (\<exists>v. newSemVer a = Inr v)"
  by (simp add: valid_def split: sum.splits)





lemma compare_notAbove:
  "valid a \<noteq> None \<Longrightarrow> valid b \<noteq> None \<Longrightarrow>
   \<exists>c. compare a b = Inr c \<and> (c \<le> 0 \<longleftrightarrow> notAbove a b)"
  unfolding valid_iff by (auto simp add: notAbove_def compare_def)




subsection \<open>The sort of \<^verbatim>\<open>getLatestTag\<close>\<close>

lemma insertSorted_mset:
  assumes "validTag x" and "\<forall>y\<in>set ys. validTag y"
  shows "\<exists>zs. insertSorted byName x ys = Inr zs \<and> mset zs = mset (x # ys)"
  using assms
proof (induction ys)
  case Nil
  then show ?case by simp
next
  case (Cons y ys)
  from Cons.prems obtain c where c: "compare (tag_name x) (tag_name y) = Inr c"
    using compare_notAbove[of "tag_name x" "tag_name y"] by (auto simp add: validTag_def)
  from Cons.prems Cons.IH obtain zs where zs: "insertSorted byName x ys = Inr zs"
    "mset zs = mset (x # ys)"
    by auto
  with c show ?case by auto
qed

lemma sortArray_mset:
  assumes "\<forall>y\<in>set xs. validTag y"
  shows "\<exists>zs. sortArray byName xs = Inr zs \<and> mset zs = mset xs"
  using assms
proof (induction xs)
  case Nil
  then show ?case by simp
next
  case (Cons x xs)
  then obtain ys where ys: "sortArray byName xs = Inr ys" "mset ys = mset xs"
    by auto
  from ys(2) have "set ys = set xs" by (rule mset_eq_setD)
  with Cons.prems have "validTag x" "\<forall>y\<in>set ys. validTag y" by auto
  from insertSorted_mset[OF this] ys show ?case by auto
qed



lemma filter_pages:
  "concat (map (filter (\<lambda>tag. valid (tag_name tag) \<noteq> None)) pages) =
     filter validTag (concat pages)"
  by (simp add: filter_concat validTag_def[abs_def] del: not_None_eq)

lemma getLatestTag_sorted:
  assumes "listTags env = Inr pages"
    and "sortArray byName (filter validTag (concat pages)) = Inr zs"
  shows "getLatestTag env w =
      (if zs = [] then (Inr None, emit RequestListTags w)
       else (Inr (Some (tag_name (hd zs))), emit RequestListTags w))"
  using assms by (simp add: getLatestTag_def Let_def filter_pages hd_conv_nth del: not_None_eq)

text \<open>
  What \<^verbatim>\<open>getLatestTag\<close> returns when the listing succeeds: always the name of one of the
  valid tags, or nothing when no tag is valid.
\<close>

lemma getLatestTag_member:
  assumes "listTags env = Inr pages"
  shows "(filter validTag (concat pages) = [] \<longrightarrow>
            getLatestTag env w = (Inr None, emit RequestListTags w)) \<and>
         (filter validTag (concat pages) \<noteq> [] \<longrightarrow>
            (\<exists>t\<in>set (filter validTag (concat pages)).
               getLatestTag env w = (Inr (Some (tag_name t)), emit RequestListTags w)))"
proof -
  let ?vs = "filter validTag (concat pages)"
  obtain zs where zs: "sortArray byName ?vs = Inr zs" "mset zs = mset ?vs"
    using sortArray_mset[of ?vs] by auto
  note latest = getLatestTag_sorted[OF assms zs(1), of w]
  from zs(2) have sets: "set zs = set ?vs" by (rule mset_eq_setD)
  show ?thesis
  proof (cases zs)
    case Nil
    with zs(2) latest show ?thesis by simp
  next
    case (Cons t ts)
    with sets have t: "t \<in> set ?vs" by auto
    then have ne: "?vs \<noteq> []" by (rule ne_set_nil)
    from Cons latest
    have "getLatestTag env w = (Inr (Some (tag_name t)), emit RequestListTags w)"
      by simp
    with t ne show ?thesis by blast
  qed
qed


lemma no_valid_tags:
  "\<forall>page\<in>set pages. \<forall>t\<in>set page. valid (tag_name t) = None \<Longrightarrow>
   concat (map (filter (\<lambda>tag. valid (tag_name tag) \<noteq> None)) pages) = []"
  by (induction pages) (auto simp add: filter_empty_conv simp del: not_None_eq)

subsection \<open>\<^verbatim>\<open>SemVer.inc\<close>\<close>

lemma incSemVer_patch:
  "incSemVer v patch =
     Some (v\<lparr>sv_patch := (if sv_prerelease v = [] then sv_patch v + 1 else sv_patch v),
             sv_prerelease := []\<rparr>)"
  by (simp add: incSemVer_def patch_def incPatch_def)

lemma incSemVer_minor:
  "incSemVer v minor =
     Some (v\<lparr>sv_minor := (if sv_patch v \<noteq> 0 \<or> sv_prerelease v = [] then sv_minor v + 1
                           else sv_minor v),
             sv_patch := 0, sv_prerelease := []\<rparr>)"
  by (simp add: incSemVer_def minor_def)

lemma incSemVer_major:
  "incSemVer v major =
     Some (v\<lparr>sv_major := (if sv_minor v \<noteq> 0 \<or> sv_patch v \<noteq> 0 \<or> sv_prerelease v = []
                           then sv_major v + 1 else sv_major v),
             sv_minor := 0, sv_patch := 0, sv_prerelease := []\<rparr>)"
  by (simp add: incSemVer_def major_def)

lemma greater_patch:
  "compareSemVer
     (v\<lparr>sv_patch := (if sv_prerelease v = [] then sv_patch v + 1 else sv_patch v),
        sv_prerelease := []\<rparr>) v = 1"
  by (rule compareSemVer_greater) (simp add: mainLess_def mainEq_def)

lemma greater_minor:
  "compareSemVer
     (v\<lparr>sv_minor := (if sv_patch v \<noteq> 0 \<or> sv_prerelease v = [] then sv_minor v + 1
                      else sv_minor v),
        sv_patch := 0, sv_prerelease := []\<rparr>) v = 1"
  by (rule compareSemVer_greater) (simp add: mainLess_def mainEq_def)

lemma greater_major:
  "compareSemVer
     (v\<lparr>sv_major := (if sv_minor v \<noteq> 0 \<or> sv_patch v \<noteq> 0 \<or> sv_prerelease v = []
                      then sv_major v + 1 else sv_major v),
        sv_minor := 0, sv_patch := 0, sv_prerelease := []\<rparr>) v = 1"
  by (rule compareSemVer_greater) (simp add: mainLess_def mainEq_def)

lemma incSemVer_greater:
  assumes "bump \<in> {patch, minor, major}"
  shows "\<exists>v'. incSemVer v bump = Some v' \<and> compareSemVer v' v = 1"
proof -
  from assms consider "bump = patch" | "bump = minor" | "bump = major" by blast
  then show ?thesis
  proof cases
    case 1
    then show ?thesis by (simp only: incSemVer_patch greater_patch option.inject simp_thms ex_simps)
  next
    case 2
    then show ?thesis by (simp only: incSemVer_minor greater_minor option.inject simp_thms ex_simps)
  next
    case 3
    then show ?thesis by (simp only: incSemVer_major greater_major option.inject simp_thms ex_simps)
  qed
qed

lemma incrementTag_format:
  "newSemVer tag = Inr v \<Longrightarrow> incSemVer v bump = Some v' \<Longrightarrow>
   incrementTag tag bump = Inr (format v')"
  by (simp add: incrementTag_def inc_def)

text \<open>
  The three increments of \<^verbatim>\<open>main.ts\<close> give a release: the components above the targeted
  one are kept, those below are set to 0, and the targeted one is increased unless the
  base has a pre-release and nothing below the targeted component to set to 0.
\<close>

lemma incSemVer_components:
  assumes "bump \<in> {patch, minor, major}"
  shows "\<exists>v'. incSemVer v bump = Some v' \<and> sv_prerelease v' = [] \<and>
     (bump = patch \<longrightarrow>
        sv_major v' = sv_major v \<and> sv_minor v' = sv_minor v \<and>
        sv_patch v' = (if sv_prerelease v = [] then sv_patch v + 1 else sv_patch v)) \<and>
     (bump = minor \<longrightarrow>
        sv_major v' = sv_major v \<and>
        sv_minor v' = (if sv_prerelease v = [] \<or> sv_patch v \<noteq> 0 then sv_minor v + 1
                       else sv_minor v) \<and>
        sv_patch v' = 0) \<and>
     (bump = major \<longrightarrow>
        sv_major v' = (if sv_prerelease v = [] \<or> sv_minor v \<noteq> 0 \<or> sv_patch v \<noteq> 0
                       then sv_major v + 1 else sv_major v) \<and>
        sv_minor v' = 0 \<and> sv_patch v' = 0)"
proof -
  have ne: "patch \<noteq> minor" "patch \<noteq> major" "minor \<noteq> major"
    by (simp_all add: patch_def minor_def major_def)
  from assms consider "bump = patch" | "bump = minor" | "bump = major" by blast
  then show ?thesis
  proof cases
    case 1
    with ne show ?thesis by (simp add: incSemVer_patch)
  next
    case 2
    with ne show ?thesis by (auto simp add: incSemVer_minor)
  next
    case 3
    with ne show ?thesis by (auto simp add: incSemVer_major)
  qed
qed

subsection \<open>The labels and the log\<close>

lemma validLabels_message:
  "join '', '' validLabels = ''patch, minor, major, no-release''"
  by (simp add: validLabels_def patch_def minor_def major_def noRelease_def)

lemma noRelease_message:
  "noRelease @ '' label detected, skipping release'' =
     ''no-release label detected, skipping release''"
  by (simp add: noRelease_def)

lemma list_ex_filter: "list_ex P xs \<longleftrightarrow> filter P xs \<noteq> []"
  by (simp add: list_ex_iff filter_empty_conv)

lemma validate_single:
  "filter isValidLabel (labels pr) = [l] \<Longrightarrow> validatePullRequestLabel pr = Inr ()"
  by (simp add: validatePullRequestLabel_def list_ex_filter)

lemma publishGitTag_single:
  "commit_pulls env (sha env) = Inr [pr] \<Longrightarrow> filter isValidLabel (labels pr) = [l] \<Longrightarrow>
   publishGitTag env w =
     releaseWithBump env (label_name l) (emit (RequestCommitPulls (sha env)) w)"
  by (simp add: publishGitTag_def pullRequestFromCommitSha_def Let_def validate_single)

lemmas observer_defs = createRefCalls_def listTagsCalls_def failureReports_def emit_def
  isCreateRef_def isSetFailed_def setFailed_def

subsection \<open>Parsing a release\<close>

lemma newSemVer_release:
  assumes "a < 10 ^ 16" "b < 10 ^ 16" "c < 10 ^ 16"
  shows "newSemVer (releaseString a b c) =
     (if MAX_SAFE_INTEGER < a then Inl (TypeError ''Invalid major version'')
      else if MAX_SAFE_INTEGER < b then Inl (TypeError ''Invalid minor version'')
      else if MAX_SAFE_INTEGER < c then Inl (TypeError ''Invalid patch version'')
      else Inr \<lparr>sv_major = a, sv_minor = b, sv_patch = c, sv_prerelease = [], sv_build = []\<rparr>)"
proof -
  from assms have "\<not> length (releaseString a b c) > MAX_LENGTH"
    using length_releaseString[of a b c] by simp
  then show ?thesis
    by (simp add: newSemVer_def trim_releaseString matchFull_releaseString toNumber_toString)
qed

lemma compare_release:
  assumes "newSemVer tag = Inr v"
    and "a \<le> MAX_SAFE_INTEGER + 1" "b \<le> MAX_SAFE_INTEGER + 1" "c \<le> MAX_SAFE_INTEGER + 1"
    and "compareSemVer
           \<lparr>sv_major = a, sv_minor = b, sv_patch = c, sv_prerelease = [], sv_build = bd\<rparr> v = 1"
  shows "compare (releaseString a b c) tag =
     (if MAX_SAFE_INTEGER < a then Inl (TypeError ''Invalid major version'')
      else if MAX_SAFE_INTEGER < b then Inl (TypeError ''Invalid minor version'')
      else if MAX_SAFE_INTEGER < c then Inl (TypeError ''Invalid patch version'')
      else Inr 1)"
proof -
  from assms(2-4) have "a < 10 ^ 16" "b < 10 ^ 16" "c < 10 ^ 16"
    by (simp_all add: MAX_SAFE_INTEGER_def)
  note n = newSemVer_release[OF this]
  have "compareSemVer
          \<lparr>sv_major = a, sv_minor = b, sv_patch = c, sv_prerelease = [], sv_build = []\<rparr> v = 1"
    using assms(5)
      compareSemVer_build[where a = "\<lparr>sv_major = a, sv_minor = b, sv_patch = c,
        sv_prerelease = [], sv_build = bd\<rparr>" and x = "[]" and b = v]
    by simp
  with assms(1) show ?thesis by (simp add: compare_def n)
qed

subsection \<open>Failure reports\<close>










subsection \<open>What is thrown\<close>













section \<open>The claims\<close>

subsection \<open>C1: the tag selected as the latest\<close>

text \<open>
  Claim C1 says that the tag selected as the latest is the maximum, by semantic-version
  order, of the valid tags, and that for the tags \<open>1.2.3\<close>, \<open>1.3.0\<close>, \<open>v-bad\<close>, \<open>2.0.0\<close> it is
  \<open>2.0.0\<close>. \<^verbatim>\<open>getLatestTag\<close> sorts the valid tags with \<^verbatim>\<open>semver.compare\<close>, which is
  ascending, and returns the first element of the result: on these tags it returns \<open>1.2.3\<close>,
  the lowest (lemma \<open>getLatestTag_lowest\<close> is the general fact, where the comparison is
  transitive on the valid names). The function and its caller name the result the latest
  tag, which is the last element of that order.
\<close>

theorem getLatestTag_example_selects_lowest:
  "fst (getLatestTag (mergeEnv prs [tagsNamed [''1.2.3'', ''1.3.0'', ''v-bad'', ''2.0.0'']]) w) =
     Inr (Some ''1.2.3'')"
  by code_simp

subsection \<open>C2: exactly one release label\<close>

text \<open>
  Claim C2. The labels of a pull request are a list, and the entries that count are its
  elements whose name is in \<^verbatim>\<open>validLabels\<close>. With exactly one such entry
  \<^verbatim>\<open>validatePullRequestLabel\<close> returns; with none it throws the error that asks for a
  label, with two or more the error that exactly one must be set. The other labels play
  no part: validation of the pull request equals validation of its valid labels alone.
  When the commit has one pull request with one such entry \<open>l\<close>, \<^verbatim>\<open>publishGitTag\<close>
  goes on with the name of \<open>l\<close> as the bump.
\<close>

theorem validatePullRequestLabel_cardinality:
  "(length (filter isValidLabel (labels pr)) = 1 \<longrightarrow> validatePullRequestLabel pr = Inr ()) \<and>
   (length (filter isValidLabel (labels pr)) = 0 \<longrightarrow>
      validatePullRequestLabel pr =
        Inl (Error ''Please set one of the following label : patch, minor, major, no-release'')) \<and>
   (length (filter isValidLabel (labels pr)) \<ge> 2 \<longrightarrow>
      validatePullRequestLabel pr = Inl (Error ''Exactly one label must be set'')) \<and>
   validatePullRequestLabel (pr\<lparr>labels := filter isValidLabel (labels pr)\<rparr>) =
     validatePullRequestLabel pr \<and>
   (commit_pulls env (sha env) = Inr [pr] \<and> filter isValidLabel (labels pr) = [l] \<longrightarrow>
      publishGitTag env w =
        releaseWithBump env (label_name l) (emit (RequestCommitPulls (sha env)) w))"
  by (auto simp add: validatePullRequestLabel_def list_ex_filter validLabels_message Let_def
      publishGitTag_single)

theorem validatePullRequestLabel_cardinality_witness:
  "validatePullRequestLabel (labelled [''bug'', ''minor'']) = Inr () \<and>
   validatePullRequestLabel (labelled [''bug'']) =
     Inl (Error ''Please set one of the following label : patch, minor, major, no-release'') \<and>
   validatePullRequestLabel (labelled [''patch'', ''bug'', ''major'']) =
     Inl (Error ''Exactly one label must be set'') \<and>
   publishGitTag (mergeEnv [labelled [''bug'', ''minor'']] []) world0 =
     releaseWithBump (mergeEnv [labelled [''bug'', ''minor'']] []) ''minor''
       (emit (RequestCommitPulls ''c0ffee'') world0)"
proof -
  let ?env = "mergeEnv [labelled [''bug'', ''minor'']] []"
  have one: "filter isValidLabel (labels (labelled [''bug'', ''minor''])) = [\<lparr>label_name = ''minor''\<rparr>]"
    by code_simp
  have none: "length (filter isValidLabel (labels (labelled [''bug'']))) = 0"
    by code_simp
  have two: "length (filter isValidLabel (labels (labelled [''patch'', ''bug'', ''major'']))) \<ge> 2"
    by code_simp
  have pulls: "commit_pulls ?env (sha ?env) = Inr [labelled [''bug'', ''minor'']]"
    by (simp add: mergeEnv_def)
  have sha: "sha ?env = ''c0ffee''"
    by (simp add: mergeEnv_def)
  from one have "length (filter isValidLabel (labels (labelled [''bug'', ''minor'']))) = 1"
    by simp
  with validatePullRequestLabel_cardinality[of "labelled [''bug'', ''minor'']" ?env
      "\<lparr>label_name = ''minor''\<rparr>" world0]
    validatePullRequestLabel_cardinality[of "labelled [''bug'']"]
    validatePullRequestLabel_cardinality[of "labelled [''patch'', ''bug'', ''major'']"]
    one none two pulls sha
  show ?thesis by simp
qed

subsection \<open>C3: no-release skips before any listing\<close>

text \<open>
  Claim C3. On a merge event whose pull request has \<open>no-release\<close> as its one release label,
  \<^verbatim>\<open>publishGitTag\<close> returns the empty string after the request for the pull requests of
  the commit and one message; the log gains no tag listing and no call of the tag
  publisher, and the result is the same whatever the tags, the publisher and the inputs
  are, so that no latest tag and no increment enter it.
\<close>

theorem no_release_skips_before_listing:
  assumes "commit_pulls env (sha env) = Inr [pr]"
    and "filter isValidLabel (labels pr) = [l]"
    and "label_name l = noRelease"
  shows "publishGitTag env w =
           (Inr [], emit (Info ''no-release label detected, skipping release'')
                      (emit (RequestCommitPulls (sha env)) w)) \<and>
     listTagsCalls (snd (publishGitTag env w)) = listTagsCalls w \<and>
     createRefCalls (snd (publishGitTag env w)) = createRefCalls w \<and>
     publishGitTag (env\<lparr>listTags := ts, createRef := cr, getInput := gi\<rparr>) w =
       publishGitTag env w"
proof -
  let ?env' = "env\<lparr>listTags := ts, createRef := cr, getInput := gi\<rparr>"
  have skip: "publishGitTag env w =
           (Inr [], emit (Info ''no-release label detected, skipping release'')
                      (emit (RequestCommitPulls (sha env)) w))"
    using assms by (simp add: publishGitTag_single releaseWithBump_def noRelease_message)
  have "commit_pulls ?env' (sha ?env') = Inr [pr]"
    using assms(1) by simp
  then have "publishGitTag ?env' w = publishGitTag env w"
    using assms(2,3) by (simp add: publishGitTag_single releaseWithBump_def)
  with skip show ?thesis
    by (simp add: observer_defs)
qed

theorem no_release_skips_before_listing_witness:
  "publishGitTag (mergeEnv [labelled [''docs'', ''no-release'']] [tagsNamed [''1.0.0'']]) world0 =
     (Inr [],
      \<lparr>events = [RequestCommitPulls ''c0ffee'',
                 Info ''no-release label detected, skipping release''],
       exitCode = 0\<rparr>) \<and>
   listTagsCalls (snd (publishGitTag
     (mergeEnv [labelled [''docs'', ''no-release'']] [tagsNamed [''1.0.0'']]) world0)) = 0 \<and>
   createRefCalls (snd (publishGitTag
     (mergeEnv [labelled [''docs'', ''no-release'']] [tagsNamed [''1.0.0'']]) world0)) = []"
proof -
  let ?pr = "labelled [''docs'', ''no-release'']"
  let ?env = "mergeEnv [?pr] [tagsNamed [''1.0.0'']]"
  have pulls: "commit_pulls ?env (sha ?env) = Inr [?pr]"
    by (simp add: mergeEnv_def)
  have one: "filter isValidLabel (labels ?pr) = [\<lparr>label_name = ''no-release''\<rparr>]"
    by code_simp
  have nr: "label_name \<lparr>label_name = ''no-release''\<rparr> = noRelease"
    by (simp add: noRelease_def)
  have w: "emit (Info ''no-release label detected, skipping release'')
             (emit (RequestCommitPulls (sha ?env)) world0) =
           \<lparr>events = [RequestCommitPulls ''c0ffee'',
                 Info ''no-release label detected, skipping release''],
            exitCode = 0\<rparr>"
    by (simp add: emit_def world0_def mergeEnv_def)
  have c: "listTagsCalls world0 = 0" "createRefCalls world0 = []"
    by (simp_all add: listTagsCalls_def createRefCalls_def world0_def)
  from no_release_skips_before_listing[OF pulls one nr, of world0] w c
  show ?thesis by (simp add: listTagsCalls_def createRefCalls_def isCreateRef_def)
qed

subsection \<open>C4: the initial tag\<close>

text \<open>
  Claim C4. On a merge event whose pull request has one release label other than
  \<open>no-release\<close>, when the listing succeeds and no listed tag is a valid semantic version,
  \<^verbatim>\<open>getLatestTag\<close> returns \<^verbatim>\<open>null\<close>, the one call of the tag publisher is for
  \<^verbatim>\<open>refs/tags/\<close> followed by the input \<open>initial_tag\<close> as it is, at the triggering commit,
  and when that call succeeds the new tag returned is \<open>initial_tag\<close>.
\<close>

theorem bootstrap_uses_initial_tag:
  assumes "commit_pulls env (sha env) = Inr [pr]"
    and "filter isValidLabel (labels pr) = [l]"
    and "label_name l \<noteq> noRelease"
    and "listTags env = Inr pages"
    and "\<forall>page\<in>set pages. \<forall>t\<in>set page. valid (tag_name t) = None"
  shows "getLatestTag env w = (Inr None, emit RequestListTags w) \<and>
         createRefCalls (snd (publishGitTag env w)) =
           createRefCalls w @
             [RequestCreateRef (''refs/tags/'' @ getInput env ''initial_tag'') (sha env)] \<and>
         (createRef env (''refs/tags/'' @ getInput env ''initial_tag'') (sha env) = Inr () \<longrightarrow>
            fst (publishGitTag env w) = Inr (getInput env ''initial_tag''))"
proof -
  have latest: "getLatestTag env w' = (Inr None, emit RequestListTags w')" for w'
    using assms(4,5) by (simp add: getLatestTag_def Let_def no_valid_tags del: not_None_eq)
  have "publishGitTag env w =
          releaseWithBump env (label_name l) (emit (RequestCommitPulls (sha env)) w)"
    using assms(1,2) by (rule publishGitTag_single)
  then have pub: "publishGitTag env w =
     (case publishTag env (getInput env ''initial_tag'')
             (emit RequestListTags (emit (RequestCommitPulls (sha env)) w)) of
        (Inl e, w2) \<Rightarrow> (Inl e, w2)
      | (Inr u, w2) \<Rightarrow> (Inr (getInput env ''initial_tag''), w2))"
    using assms(3) by (simp add: releaseWithBump_def latest)
  show ?thesis
    using latest by (auto simp add: pub publishTag_def Let_def observer_defs split: sum.splits)
qed

theorem bootstrap_uses_initial_tag_witness:
  "publishGitTag (mergeEnv [labelled [''minor'']] []) world0 =
     (Inr ''0.1.0'',
      \<lparr>events = [RequestCommitPulls ''c0ffee'', RequestListTags,
                 Info ''Tagging c0ffee with tag 0.1.0'',
                 RequestCreateRef ''refs/tags/0.1.0'' ''c0ffee''],
       exitCode = 0\<rparr>) \<and>
   fst (publishGitTag (mergeEnv [labelled [''minor'']] [tagsNamed [''v-bad'', ''latest'']]) world0) =
     Inr ''0.1.0''"
proof -
  let ?pr = "labelled [''minor'']"
  let ?e1 = "mergeEnv [?pr] []"
  let ?e2 = "mergeEnv [?pr] [tagsNamed [''v-bad'', ''latest'']]"
  have one: "filter isValidLabel (labels ?pr) = [\<lparr>label_name = ''minor''\<rparr>]"
    by code_simp
  have nr: "label_name \<lparr>label_name = ''minor''\<rparr> \<noteq> noRelease"
    by (simp add: noRelease_def)
  have h1: "commit_pulls ?e1 (sha ?e1) = Inr [?pr]" "listTags ?e1 = Inr []"
    and h2: "commit_pulls ?e2 (sha ?e2) = Inr [?pr]"
      "listTags ?e2 = Inr [tagsNamed [''v-bad'', ''latest'']]"
    by (simp_all add: mergeEnv_def)
  have none1: "\<forall>page\<in>set []. \<forall>t\<in>set page. valid (tag_name t) = None"
    by simp
  have none2: "\<forall>page\<in>set [tagsNamed [''v-bad'', ''latest'']]. \<forall>t\<in>set page.
                 valid (tag_name t) = None"
    by code_simp
  have ok: "createRef ?e1 (''refs/tags/'' @ getInput ?e1 ''initial_tag'') (sha ?e1) = Inr ()"
    "createRef ?e2 (''refs/tags/'' @ getInput ?e2 ''initial_tag'') (sha ?e2) = Inr ()"
    "getInput ?e1 ''initial_tag'' = ''0.1.0''" "getInput ?e2 ''initial_tag'' = ''0.1.0''"
    by (simp_all add: mergeEnv_def)
  have full: "snd (publishGitTag ?e1 world0) =
      \<lparr>events = [RequestCommitPulls ''c0ffee'', RequestListTags,
                 Info ''Tagging c0ffee with tag 0.1.0'',
                 RequestCreateRef ''refs/tags/0.1.0'' ''c0ffee''],
       exitCode = 0\<rparr>"
    by code_simp
  from bootstrap_uses_initial_tag[OF h1(1) one nr h1(2) none1, of world0]
    bootstrap_uses_initial_tag[OF h2(1) one nr h2(2) none2, of world0] ok
  have "fst (publishGitTag ?e1 world0) = Inr ''0.1.0''"
    "fst (publishGitTag ?e2 world0) = Inr ''0.1.0''"
    by simp_all
  with full show ?thesis by (simp add: prod_eq_iff)
qed

subsection \<open>C5: the pull request of the commit\<close>

text \<open>
  Claim C5. When the request answers with no pull request, \<^verbatim>\<open>publishGitTag\<close> throws
  the error that none is associated with the commit; when it answers with more than one,
  the error that several were found. In both cases nothing but the request is logged: the
  tag publisher is not called.
\<close>

theorem pull_request_resolution_errors:
  "(commit_pulls env (sha env) = Inr [] \<longrightarrow>
      publishGitTag env w =
        (Inl (Error (''Cannot find any Pull Request associated with '' @ sha env)),
         emit (RequestCommitPulls (sha env)) w)) \<and>
   (commit_pulls env (sha env) = Inr prs \<and> length prs > 1 \<longrightarrow>
      publishGitTag env w =
        (Inl (Error (''Multiple Pull Requests found for '' @ sha env)),
         emit (RequestCommitPulls (sha env)) w)) \<and>
   (commit_pulls env (sha env) = Inr prs \<and> length prs \<noteq> 1 \<longrightarrow>
      createRefCalls (snd (publishGitTag env w)) = createRefCalls w)"
  by (auto simp add: publishGitTag_def pullRequestFromCommitSha_def Let_def observer_defs)

theorem pull_request_resolution_errors_witness:
  "publishGitTag (mergeEnv [] []) world0 =
     (Inl (Error ''Cannot find any Pull Request associated with c0ffee''),
      \<lparr>events = [RequestCommitPulls ''c0ffee''], exitCode = 0\<rparr>) \<and>
   publishGitTag (mergeEnv [labelled [''patch''], labelled [''minor'']] []) world0 =
     (Inl (Error ''Multiple Pull Requests found for c0ffee''),
      \<lparr>events = [RequestCommitPulls ''c0ffee''], exitCode = 0\<rparr>) \<and>
   createRefCalls (snd (publishGitTag (mergeEnv [] []) world0)) = [] \<and>
   createRefCalls (snd (publishGitTag (mergeEnv [labelled [''patch''], labelled [''minor'']] [])
     world0)) = []"
proof -
  let ?e0 = "mergeEnv [] []"
  let ?prs = "[labelled [''patch''], labelled [''minor'']]"
  let ?e2 = "mergeEnv ?prs []"
  have p0: "commit_pulls ?e0 (sha ?e0) = Inr []" by (simp add: mergeEnv_def)
  have p2: "commit_pulls ?e2 (sha ?e2) = Inr ?prs \<and> length ?prs > 1" by (simp add: mergeEnv_def)
  have s: "sha ?e0 = ''c0ffee''" "sha ?e2 = ''c0ffee''" by (simp_all add: mergeEnv_def)
  have w: "emit (RequestCommitPulls ''c0ffee'') world0 =
             \<lparr>events = [RequestCommitPulls ''c0ffee''], exitCode = 0\<rparr>"
    "createRefCalls world0 = []"
    by (simp_all add: emit_def world0_def createRefCalls_def)
  from pull_request_resolution_errors[of ?e0 world0 "[]"]
    pull_request_resolution_errors[of ?e2 world0 ?prs] p0 p2 s w
  show ?thesis by (simp add: createRefCalls_def isCreateRef_def)
qed

subsection \<open>C6: the order of the tags\<close>




subsection \<open>C7: tags that are no semantic versions\<close>

text \<open>
  Claim C7. When the listing succeeds, \<^verbatim>\<open>getLatestTag\<close> returns and does not throw,
  whatever names the listing holds: the comparator is only called on valid tags. The
  result is \<^verbatim>\<open>null\<close> exactly when no tag is valid, it is otherwise the name of a valid
  tag, and it is the result for the listing without its invalid tags.
\<close>

theorem getLatestTag_excludes_invalid:
  assumes "listTags env = Inr pages"
  shows "\<exists>r. getLatestTag env w = (Inr r, emit RequestListTags w) \<and>
             (r = None \<longleftrightarrow> filter validTag (concat pages) = []) \<and>
             (\<forall>t. r = Some t \<longrightarrow> t \<in> tag_name ` set (filter validTag (concat pages))) \<and>
             getLatestTag (env\<lparr>listTags := Inr (map (filter validTag) pages)\<rparr>) w =
               getLatestTag env w"
proof -
  have same: "getLatestTag (env\<lparr>listTags := Inr (map (filter validTag) pages)\<rparr>) w =
               getLatestTag env w"
    using assms
    by (simp add: getLatestTag_def Let_def validTag_def[abs_def] filter_concat comp_def
        del: not_None_eq)
  show ?thesis
  proof (cases "filter validTag (concat pages) = []")
    case True
    with getLatestTag_member[OF assms, of w] same show ?thesis by simp
  next
    case False
    with getLatestTag_member[OF assms, of w] obtain t
      where "t \<in> set (filter validTag (concat pages))"
        "getLatestTag env w = (Inr (Some (tag_name t)), emit RequestListTags w)"
      by blast
    with False same show ?thesis by auto
  qed
qed

theorem getLatestTag_excludes_invalid_witness:
  "getLatestTag (mergeEnv [] [tagsNamed [''v-bad'', ''1.3.0''], tagsNamed [''nightly'']]) world0 =
     (Inr (Some ''1.3.0''), \<lparr>events = [RequestListTags], exitCode = 0\<rparr>) \<and>
   getLatestTag (mergeEnv [] [tagsNamed [''v-bad''], tagsNamed [''nightly'']]) world0 =
     (Inr None, \<lparr>events = [RequestListTags], exitCode = 0\<rparr>)"
proof -
  let ?p1 = "[tagsNamed [''v-bad'', ''1.3.0''], tagsNamed [''nightly'']]"
  let ?p2 = "[tagsNamed [''v-bad''], tagsNamed [''nightly'']]"
  have l: "listTags (mergeEnv [] ?p1) = Inr ?p1" "listTags (mergeEnv [] ?p2) = Inr ?p2"
    by (simp_all add: mergeEnv_def)
  have v1: "filter validTag (concat ?p1) = [\<lparr>tag_name = ''1.3.0''\<rparr>]"
    by code_simp
  have v2: "filter validTag (concat ?p2) = []"
    by code_simp
  have w: "emit RequestListTags world0 = \<lparr>events = [RequestListTags], exitCode = 0\<rparr>"
    by (simp add: emit_def world0_def)
  from getLatestTag_excludes_invalid[OF l(1), of world0]
    getLatestTag_excludes_invalid[OF l(2), of world0]
  show ?thesis unfolding v1 v2 w by auto
qed

subsection \<open>C8: the increment\<close>

text \<open>
  Claim C8 says that for every valid base version the increment changes exactly the
  targeted component, and that the result is strictly greater than the base in the order
  of semantic versions. On a base with a pre-release, \<^verbatim>\<open>semver.inc\<close> with \<open>patch\<close> drops
  the pre-release and keeps the patch number: \<open>1.2.3-alpha\<close> becomes \<open>1.2.3\<close>. And where
  the targeted component is \<^verbatim>\<open>Number.MAX_SAFE_INTEGER\<close> the result is no version that the
  package accepts: \<open>9007199254740991.0.0\<close> with \<open>major\<close> becomes \<open>9007199254740992.0.0\<close>,
  on which \<^verbatim>\<open>semver.valid\<close> returns \<^verbatim>\<open>null\<close> and \<^verbatim>\<open>semver.compare\<close> throws.
\<close>

theorem incrementTag_keeps_or_overflows:
  "newSemVer ''1.2.3-alpha'' =
     Inr \<lparr>sv_major = 1, sv_minor = 2, sv_patch = 3, sv_prerelease = [Str ''alpha''],
          sv_build = []\<rparr> \<and>
   incrementTag ''1.2.3-alpha'' patch = Inr ''1.2.3'' \<and>
   newSemVer ''1.2.3'' =
     Inr \<lparr>sv_major = 1, sv_minor = 2, sv_patch = 3, sv_prerelease = [], sv_build = []\<rparr> \<and>
   valid ''9007199254740991.0.0'' = Some ''9007199254740991.0.0'' \<and>
   incrementTag ''9007199254740991.0.0'' major = Inr ''9007199254740992.0.0'' \<and>
   valid ''9007199254740992.0.0'' = None \<and>
   compare ''9007199254740992.0.0'' ''9007199254740991.0.0'' =
     Inl (TypeError ''Invalid major version'')"
  by code_simp

text \<open>
  Claim C8, amended. For every valid base version \<open>v\<close> and each of the three bumps,
  \<^verbatim>\<open>incrementTag\<close> returns the version string of a release, with no pre-release and no
  build. The components above the targeted one are those of the base and the components
  below it are 0. The targeted component is the one of the base plus one, except on a base
  with a pre-release whose components below the targeted one are all 0 (for \<open>patch\<close>:
  every base with a pre-release), where it is the one of the base: there the pre-release
  is dropped and no number changes. \<^verbatim>\<open>SemVer.compare\<close> places the incremented version
  strictly above the base. \<^verbatim>\<open>semver.compare\<close> of the returned string with the base returns
  1, unless the increased component is above \<^verbatim>\<open>Number.MAX_SAFE_INTEGER\<close>, where it throws
  the \<^verbatim>\<open>TypeError\<close> of the constructor. With the latest tag \<open>1.4.2\<close> and the label \<open>major\<close>
  the new tag is \<open>2.0.0\<close>.
\<close>

theorem incrementTag_release:
  assumes "newSemVer tag = Inr v" and "bump \<in> {patch, minor, major}"
  shows "\<exists>v'. incSemVer v bump = Some v' \<and> sv_prerelease v' = [] \<and>
     incrementTag tag bump = Inr (releaseString (sv_major v') (sv_minor v') (sv_patch v')) \<and>
     (bump = patch \<longrightarrow>
        sv_major v' = sv_major v \<and> sv_minor v' = sv_minor v \<and>
        sv_patch v' = (if sv_prerelease v = [] then sv_patch v + 1 else sv_patch v)) \<and>
     (bump = minor \<longrightarrow>
        sv_major v' = sv_major v \<and>
        sv_minor v' = (if sv_prerelease v = [] \<or> sv_patch v \<noteq> 0 then sv_minor v + 1
                       else sv_minor v) \<and>
        sv_patch v' = 0) \<and>
     (bump = major \<longrightarrow>
        sv_major v' = (if sv_prerelease v = [] \<or> sv_minor v \<noteq> 0 \<or> sv_patch v \<noteq> 0
                       then sv_major v + 1 else sv_major v) \<and>
        sv_minor v' = 0 \<and> sv_patch v' = 0) \<and>
     compareSemVer v' v = 1 \<and>
     compare (releaseString (sv_major v') (sv_minor v') (sv_patch v')) tag =
       (if MAX_SAFE_INTEGER < sv_major v' then Inl (TypeError ''Invalid major version'')
        else if MAX_SAFE_INTEGER < sv_minor v' then Inl (TypeError ''Invalid minor version'')
        else if MAX_SAFE_INTEGER < sv_patch v' then Inl (TypeError ''Invalid patch version'')
        else Inr 1)"
proof -
  from incSemVer_components[OF assms(2), of v] obtain v' where v': "incSemVer v bump = Some v'"
    "sv_prerelease v' = []"
    and cp: "bump = patch \<longrightarrow>
        sv_major v' = sv_major v \<and> sv_minor v' = sv_minor v \<and>
        sv_patch v' = (if sv_prerelease v = [] then sv_patch v + 1 else sv_patch v)"
    and cm: "bump = minor \<longrightarrow>
        sv_major v' = sv_major v \<and>
        sv_minor v' = (if sv_prerelease v = [] \<or> sv_patch v \<noteq> 0 then sv_minor v + 1
                       else sv_minor v) \<and>
        sv_patch v' = 0"
    and cM: "bump = major \<longrightarrow>
        sv_major v' = (if sv_prerelease v = [] \<or> sv_minor v \<noteq> 0 \<or> sv_patch v \<noteq> 0
                       then sv_major v + 1 else sv_major v) \<and>
        sv_minor v' = 0 \<and> sv_patch v' = 0"
    by blast
  from incSemVer_greater[OF assms(2), of v] v'(1) have g: "compareSemVer v' v = 1" by simp
  from v'(2) have fmt: "format v' = releaseString (sv_major v') (sv_minor v') (sv_patch v')"
    by (simp add: format_release releaseString_def)
  from incrementTag_format[OF assms(1) v'(1)] fmt
  have inc: "incrementTag tag bump =
               Inr (releaseString (sv_major v') (sv_minor v') (sv_patch v'))"
    by simp
  from newSemVer_bounds[OF assms(1)] have b: "sv_major v \<le> MAX_SAFE_INTEGER"
    "sv_minor v \<le> MAX_SAFE_INTEGER" "sv_patch v \<le> MAX_SAFE_INTEGER"
    by simp_all
  from assms(2) have bs: "bump = patch \<or> bump = minor \<or> bump = major" by blast
  have b': "sv_major v' \<le> MAX_SAFE_INTEGER + 1" "sv_minor v' \<le> MAX_SAFE_INTEGER + 1"
    "sv_patch v' \<le> MAX_SAFE_INTEGER + 1"
    using bs cp cm cM b by auto
  have rec: "\<lparr>sv_major = sv_major v', sv_minor = sv_minor v', sv_patch = sv_patch v',
              sv_prerelease = [], sv_build = sv_build v'\<rparr> = v'"
    using v'(2) by simp
  from g have "compareSemVer \<lparr>sv_major = sv_major v', sv_minor = sv_minor v',
      sv_patch = sv_patch v', sv_prerelease = [], sv_build = sv_build v'\<rparr> v = 1"
    by (simp only: rec)
  from compare_release[OF assms(1) b' this]
  have cmp: "compare (releaseString (sv_major v') (sv_minor v') (sv_patch v')) tag =
       (if MAX_SAFE_INTEGER < sv_major v' then Inl (TypeError ''Invalid major version'')
        else if MAX_SAFE_INTEGER < sv_minor v' then Inl (TypeError ''Invalid minor version'')
        else if MAX_SAFE_INTEGER < sv_patch v' then Inl (TypeError ''Invalid patch version'')
        else Inr 1)" .
  from v' inc cp cm cM g cmp show ?thesis by blast
qed

theorem incrementTag_release_witness:
  "incrementTag ''1.4.2'' major = Inr ''2.0.0'' \<and>
   compare ''2.0.0'' ''1.4.2'' = Inr 1 \<and>
   incrementTag ''1.2.3-alpha'' minor = Inr ''1.3.0'' \<and>
   compare ''1.3.0'' ''1.2.3-alpha'' = Inr 1 \<and>
   fst (publishGitTag (mergeEnv [labelled [''major'']] [tagsNamed [''1.4.2'']]) world0) =
     Inr ''2.0.0''"
proof -
  let ?v = "\<lparr>sv_major = 1, sv_minor = 4, sv_patch = 2, sv_prerelease = [], sv_build = []\<rparr>"
  let ?u = "\<lparr>sv_major = 1, sv_minor = 2, sv_patch = 3, sv_prerelease = [Str ''alpha''],
             sv_build = []\<rparr>"
  let ?v' = "\<lparr>sv_major = 2, sv_minor = 0, sv_patch = 0, sv_prerelease = [], sv_build = []\<rparr>"
  let ?u' = "\<lparr>sv_major = 1, sv_minor = 3, sv_patch = 0, sv_prerelease = [], sv_build = []\<rparr>"
  have p: "newSemVer ''1.4.2'' = Inr ?v" "newSemVer ''1.2.3-alpha'' = Inr ?u"
    by code_simp+
  have m: "major \<in> {patch, minor, major}" "minor \<in> {patch, minor, major}"
    by simp_all
  have i: "incSemVer ?v major = Some ?v'" "incSemVer ?u minor = Some ?u'"
    by code_simp+
  have s: "releaseString (sv_major ?v') (sv_minor ?v') (sv_patch ?v') = ''2.0.0''"
    "releaseString (sv_major ?u') (sv_minor ?u') (sv_patch ?u') = ''1.3.0''"
    by code_simp+
  have c: "(if MAX_SAFE_INTEGER < sv_major ?v' then Inl (TypeError ''Invalid major version'')
        else if MAX_SAFE_INTEGER < sv_minor ?v' then Inl (TypeError ''Invalid minor version'')
        else if MAX_SAFE_INTEGER < sv_patch ?v' then Inl (TypeError ''Invalid patch version'')
        else Inr 1) = (Inr 1 :: thrown + int)"
    "(if MAX_SAFE_INTEGER < sv_major ?u' then Inl (TypeError ''Invalid major version'')
        else if MAX_SAFE_INTEGER < sv_minor ?u' then Inl (TypeError ''Invalid minor version'')
        else if MAX_SAFE_INTEGER < sv_patch ?u' then Inl (TypeError ''Invalid patch version'')
        else Inr 1) = (Inr 1 :: thrown + int)"
    by code_simp+
  have d: "fst (publishGitTag (mergeEnv [labelled [''major'']] [tagsNamed [''1.4.2'']]) world0) =
     Inr ''2.0.0''"
    by code_simp
  from incrementTag_release[OF p(1) m(1)] obtain a where a: "incSemVer ?v major = Some a"
    "incrementTag ''1.4.2'' major = Inr (releaseString (sv_major a) (sv_minor a) (sv_patch a))"
    "compare (releaseString (sv_major a) (sv_minor a) (sv_patch a)) ''1.4.2'' =
       (if MAX_SAFE_INTEGER < sv_major a then Inl (TypeError ''Invalid major version'')
        else if MAX_SAFE_INTEGER < sv_minor a then Inl (TypeError ''Invalid minor version'')
        else if MAX_SAFE_INTEGER < sv_patch a then Inl (TypeError ''Invalid patch version'')
        else Inr 1)"
    by blast
  from a(1) have "a = ?v'" unfolding i(1) by (simp only: option.inject)
  with a(2,3) have r1: "incrementTag ''1.4.2'' major = Inr ''2.0.0''"
    "compare ''2.0.0'' ''1.4.2'' = Inr 1"
    unfolding s c by (simp_all only: s c)
  from incrementTag_release[OF p(2) m(2)] obtain b where b: "incSemVer ?u minor = Some b"
    "incrementTag ''1.2.3-alpha'' minor =
       Inr (releaseString (sv_major b) (sv_minor b) (sv_patch b))"
    "compare (releaseString (sv_major b) (sv_minor b) (sv_patch b)) ''1.2.3-alpha'' =
       (if MAX_SAFE_INTEGER < sv_major b then Inl (TypeError ''Invalid major version'')
        else if MAX_SAFE_INTEGER < sv_minor b then Inl (TypeError ''Invalid minor version'')
        else if MAX_SAFE_INTEGER < sv_patch b then Inl (TypeError ''Invalid patch version'')
        else Inr 1)"
    by blast
  from b(1) have "b = ?u'" unfolding i(2) by (simp only: option.inject)
  with b(2,3) have r2: "incrementTag ''1.2.3-alpha'' minor = Inr ''1.3.0''"
    "compare ''1.3.0'' ''1.2.3-alpha'' = Inr 1"
    by (simp_all only: s c)
  from r1 r2 d show ?thesis by blast
qed

subsection \<open>C9: failures at the boundary\<close>



subsection \<open>C10: the output of a skipped release\<close>

text \<open>
  Claim C10. On a merge event with a client, when the commit has one pull request whose
  one release label is \<open>no-release\<close>, \<^verbatim>\<open>main\<close> returns after setting the output \<open>tag\<close>
  to the empty string, with no failure report and the exit code as it was.
\<close>

theorem no_release_sets_empty_output:
  assumes "payload_pull_request env = None"
    and "getOctokit env (getInput env ''github_token'') = Inr ()"
    and "commit_pulls env (sha env) = Inr [pr]"
    and "filter isValidLabel (labels pr) = [l]"
    and "label_name l = noRelease"
  shows "main env w =
           (Inr (), emit (SetOutput ''tag'' [])
                      (emit (Info ''no-release label detected, skipping release'')
                         (emit (RequestCommitPulls (sha env)) w))) \<and>
         exitCode (snd (main env w)) = exitCode w \<and>
         failureReports (snd (main env w)) = failureReports w"
proof -
  have "publishGitTag env w =
           (Inr [], emit (Info ''no-release label detected, skipping release'')
                      (emit (RequestCommitPulls (sha env)) w))"
    using assms(3-5) by (simp add: publishGitTag_single releaseWithBump_def noRelease_message)
  then have "main env w =
           (Inr (), emit (SetOutput ''tag'' [])
                      (emit (Info ''no-release label detected, skipping release'')
                         (emit (RequestCommitPulls (sha env)) w)))"
    using assms(1,2) by (simp add: main_def mainBody_def)
  then show ?thesis
    by (simp add: observer_defs)
qed

theorem no_release_sets_empty_output_witness:
  "main (mergeEnv [labelled [''no-release'']] [tagsNamed [''1.0.0'']]) world0 =
     (Inr (),
      \<lparr>events = [RequestCommitPulls ''c0ffee'',
                 Info ''no-release label detected, skipping release'',
                 SetOutput ''tag'' []],
       exitCode = 0\<rparr>)"
proof -
  let ?pr = "labelled [''no-release'']"
  let ?env = "mergeEnv [?pr] [tagsNamed [''1.0.0'']]"
  have h: "payload_pull_request ?env = None"
    "getOctokit ?env (getInput ?env ''github_token'') = Inr ()"
    "commit_pulls ?env (sha ?env) = Inr [?pr]"
    by (simp_all add: mergeEnv_def)
  have one: "filter isValidLabel (labels ?pr) = [\<lparr>label_name = ''no-release''\<rparr>]"
    by code_simp
  have nr: "label_name \<lparr>label_name = ''no-release''\<rparr> = noRelease"
    by (simp add: noRelease_def)
  have w: "emit (SetOutput ''tag'' [])
             (emit (Info ''no-release label detected, skipping release'')
                (emit (RequestCommitPulls (sha ?env)) world0)) =
           \<lparr>events = [RequestCommitPulls ''c0ffee'',
                 Info ''no-release label detected, skipping release'',
                 SetOutput ''tag'' []],
            exitCode = 0\<rparr>"
    by (simp add: emit_def world0_def mergeEnv_def)
  from no_release_sets_empty_output[OF h one nr, of world0] w
  show ?thesis by simp
qed

end
